theory Spec2Isabelle
  imports Complex_Main "HOL-Library.AList" "HOL-Library.Word"
begin

section \<open>Python values, dictionaries and exceptions\<close>

text \<open>
  The development embeds \<^verbatim>\<open>createMovie\<close> of \<^verbatim>\<open>hvpy/helpers.py\<close>. The
  function is dynamically typed: the responses of the remote service are parsed JSON, and
  \<^verbatim>\<open>locals()\<close> puts every argument into one dictionary. All of these are values
  of one type. Python floats are idealised as reals (rounding, infinities and NaN are not
  modelled); JSON arrays and objects nested inside a response are not modelled.
\<close>

record datetime =
  year :: nat
  month :: nat
  day :: nat
  hour :: nat
  minute :: nat
  second :: nat
  microsecond :: nat

type_synonym bytes = "8 word list"

datatype pyval =
    PNone
  | PBool bool
  | PInt int
  | PFloat real
  | PStr string
  | PBytes bytes
  | PDatetime datetime
  | PPath string

text \<open>A dictionary keeps its insertion order; the first binding of a key is its value.\<close>

type_synonym pydict = "(string \<times> pyval) list"

datatype exn =
    RuntimeError pyval
  | KeyError string
  | TypeError
  | CollaboratorError string

text \<open>\<^verbatim>\<open>d[k]\<close>: raises \<^verbatim>\<open>KeyError\<close> on a missing key.\<close>

definition subscript :: "pydict \<Rightarrow> string \<Rightarrow> exn + pyval" where
  "subscript d k = (case map_of d k of None \<Rightarrow> Inl (KeyError k) | Some v \<Rightarrow> Inr v)"

text \<open>\<^verbatim>\<open>d.get(k)\<close>: \<^verbatim>\<open>None\<close> on a missing key.\<close>

definition dict_get :: "pydict \<Rightarrow> string \<Rightarrow> pyval" where
  "dict_get d k = (case map_of d k of None \<Rightarrow> PNone | Some v \<Rightarrow> v)"

text \<open>\<^verbatim>\<open>d.pop(k)\<close>: the value and the dictionary without the key.\<close>

definition dict_pop :: "string \<Rightarrow> pydict \<Rightarrow> exn + pyval \<times> pydict" where
  "dict_pop k d =
     (case map_of d k of None \<Rightarrow> Inl (KeyError k) | Some v \<Rightarrow> Inr (v, AList.delete k d))"

text \<open>Truth value of an object, as \<^verbatim>\<open>if x:\<close> tests it.\<close>

fun truthy :: "pyval \<Rightarrow> bool" where
  "truthy PNone = False"
| "truthy (PBool b) = b"
| "truthy (PInt i) = (i \<noteq> 0)"
| "truthy (PFloat r) = (r \<noteq> 0)"
| "truthy (PStr s) = (s \<noteq> [])"
| "truthy (PBytes b) = (b \<noteq> [])"
| "truthy (PDatetime d) = True"
| "truthy (PPath s) = True"

text \<open>
  \<^verbatim>\<open>x == n\<close> for an integer literal \<^verbatim>\<open>n\<close>: numbers compare by value, and
  \<^verbatim>\<open>True\<close> and \<^verbatim>\<open>False\<close> are the integers 1 and 0.
\<close>

fun py_eq_int :: "pyval \<Rightarrow> int \<Rightarrow> bool" where
  "py_eq_int (PBool b) n = ((if b then 1 else 0) = n)"
| "py_eq_int (PInt i) n = (i = n)"
| "py_eq_int (PFloat r) n = (r = of_int n)"
| "py_eq_int v n = False"

text \<open>The number an object stands for in arithmetic, if any.\<close>

fun py_number :: "pyval \<Rightarrow> real option" where
  "py_number (PBool b) = Some (if b then 1 else 0)"
| "py_number (PInt i) = Some (of_int i)"
| "py_number (PFloat r) = Some r"
| "py_number v = None"

subsection \<open>Rendering as text\<close>

fun dec :: "nat \<Rightarrow> string" where
  "dec n = (if n < 10 then [''0123456789'' ! n] else dec (n div 10) @ [''0123456789'' ! (n mod 10)])"

declare dec.simps [simp del]

definition zfill :: "nat \<Rightarrow> string \<Rightarrow> string" where
  "zfill w s = replicate (w - length s) CHR ''0'' @ s"

text \<open>\<^verbatim>\<open>str(dt.date())\<close>: the ISO form, zero padded.\<close>

definition date_str :: "datetime \<Rightarrow> string" where
  "date_str d = zfill 4 (dec (year d)) @ ''-'' @ zfill 2 (dec (month d)) @ ''-'' @ zfill 2 (dec (day d))"

text \<open>
  \<^verbatim>\<open>str(x)\<close>, as an f-string applies it. The renderings of floats, bytes and
  datetimes belong to the Python runtime and are taken as the parameter \<open>ext\<close>.
\<close>

fun py_str :: "(pyval \<Rightarrow> string) \<Rightarrow> pyval \<Rightarrow> string" where
  "py_str ext PNone = ''None''"
| "py_str ext (PBool b) = (if b then ''True'' else ''False'')"
| "py_str ext (PInt i) = (if i < 0 then CHR ''-'' # dec (nat (- i)) else dec (nat i))"
| "py_str ext (PStr s) = s"
| "py_str ext (PPath s) = s"
| "py_str ext v = ext v"

section \<open>The arguments of createMovie\<close>

datatype str_or_path = AsStr string | AsPath string

text \<open>One field per parameter, in the order and with the type of the signature.\<close>

record params =
  startTime :: datetime
  endTime :: datetime
  layers :: string
  events :: string
  eventsLabels :: bool
  imageScale :: real
  format :: string
  frameRate :: string
  maxFrames :: "string option"
  scale :: "bool option"
  scaleType :: "string option"
  scaleX :: "real option"
  scaleY :: "real option"
  movieLength :: "real option"
  watermark :: bool
  width :: "string option"
  height :: "string option"
  x0 :: "string option"
  y0 :: "string option"
  x1 :: "string option"
  y1 :: "string option"
  x2 :: "string option"
  y2 :: "string option"
  size_arg :: int
  movieIcons :: "int option"
  followViewport :: "int option"
  reqObservationDate :: "datetime option"
  overwrite :: bool
  filename :: "str_or_path option"
  hq :: bool
  timeout :: real

definition optional :: "('a \<Rightarrow> pyval) \<Rightarrow> 'a option \<Rightarrow> pyval" where
  "optional f x = (case x of None \<Rightarrow> PNone | Some v \<Rightarrow> f v)"

fun of_str_or_path :: "str_or_path \<Rightarrow> pyval" where
  "of_str_or_path (AsStr s) = PStr s"
| "of_str_or_path (AsPath s) = PPath s"

text \<open>
  \<^verbatim>\<open>locals()\<close> as the first statement of the body: the dictionary of the 31
  arguments (the parameter \<^verbatim>\<open>size\<close> is the field \<open>size_arg\<close>).
\<close>

definition locals :: "params \<Rightarrow> pydict" where
  "locals p =
    [(''startTime'', PDatetime (startTime p)),
     (''endTime'', PDatetime (endTime p)),
     (''layers'', PStr (layers p)),
     (''events'', PStr (events p)),
     (''eventsLabels'', PBool (eventsLabels p)),
     (''imageScale'', PFloat (imageScale p)),
     (''format'', PStr (format p)),
     (''frameRate'', PStr (frameRate p)),
     (''maxFrames'', optional PStr (maxFrames p)),
     (''scale'', optional PBool (scale p)),
     (''scaleType'', optional PStr (scaleType p)),
     (''scaleX'', optional PFloat (scaleX p)),
     (''scaleY'', optional PFloat (scaleY p)),
     (''movieLength'', optional PFloat (movieLength p)),
     (''watermark'', PBool (watermark p)),
     (''width'', optional PStr (width p)),
     (''height'', optional PStr (height p)),
     (''x0'', optional PStr (x0 p)),
     (''y0'', optional PStr (y0 p)),
     (''x1'', optional PStr (x1 p)),
     (''y1'', optional PStr (y1 p)),
     (''x2'', optional PStr (x2 p)),
     (''y2'', optional PStr (y2 p)),
     (''size'', PInt (size_arg p)),
     (''movieIcons'', optional PInt (movieIcons p)),
     (''followViewport'', optional PInt (followViewport p)),
     (''reqObservationDate'', optional PDatetime (reqObservationDate p)),
     (''overwrite'', PBool (overwrite p)),
     (''filename'', optional of_str_or_path (filename p)),
     (''hq'', PBool (hq p)),
     (''timeout'', PFloat (timeout p))]"

section \<open>The collaborators and the run state\<close>

text \<open>
  \<^verbatim>\<open>queueMovie\<close>, \<^verbatim>\<open>getMovieStatus\<close>, \<^verbatim>\<open>downloadMovie\<close>
  (\<^verbatim>\<open>hvpy.facade\<close>) and \<^verbatim>\<open>save_file\<close> (\<^verbatim>\<open>hvpy.utils\<close>) are not part
  of the file; the run takes what they answer as its environment. A reply is the time the
  call takes and either the exception it raises or the value it returns. The replies of
  \<^verbatim>\<open>getMovieStatus\<close> are a list, one per poll in order: the list is the part of the
  service's behaviour observed so far, and a run that is still polling when the list is
  used up has no outcome yet.
\<close>

type_synonym 'a reply = "real \<times> (exn + 'a)"

record world =
  clock0 :: real
  queue_reply :: "pydict reply"
  status_replies :: "pydict reply list"
  download_reply :: "exn + pyval"
  save_file :: "pydict \<Rightarrow> exn option"
  str_ext :: "pyval \<Rightarrow> string"

text \<open>What a run does to the outside, in order.\<close>

datatype event =
    Call string pydict
  | Sleep real
  | TimeRead

record run_state =
  now :: real
  trace :: "event list"

text \<open>A call of a collaborator with keyword arguments, taking \<open>lat\<close> seconds.\<close>

definition call :: "string \<Rightarrow> pydict \<Rightarrow> real \<Rightarrow> run_state \<Rightarrow> run_state" where
  "call f kw lat s = s\<lparr>now := now s + lat, trace := trace s @ [Call f kw]\<rparr>"

text \<open>\<^verbatim>\<open>time.sleep(d)\<close>\<close>

definition sleep :: "real \<Rightarrow> run_state \<Rightarrow> run_state" where
  "sleep d s = s\<lparr>now := now s + d, trace := trace s @ [Sleep d]\<rparr>"

text \<open>\<^verbatim>\<open>time.time()\<close>\<close>

definition time :: "run_state \<Rightarrow> real \<times> run_state" where
  "time s = (now s, s\<lparr>trace := trace s @ [TimeRead]\<rparr>)"

section \<open>createMovie\<close>

subsection \<open>Submission (lines 87 to 97)\<close>

text \<open>
  The local variables the rest of the body reads: the response of \<^verbatim>\<open>queueMovie\<close>,
  the four values popped from \<^verbatim>\<open>input_params\<close> (each rebinding the argument of
  its name), and the deadline.
\<close>

record frame =
  res :: pydict
  overwrite' :: pyval
  filename' :: pyval
  hq' :: pyval
  timeout' :: pyval
  timeout_counter :: real

definition submit :: "params \<Rightarrow> world \<Rightarrow> (exn + frame) \<times> run_state" where
  "submit p w =
    (let s0 = \<lparr>now = clock0 w, trace = []\<rparr>;
         input_params = locals p
     in case dict_pop ''overwrite'' input_params of
          Inl e \<Rightarrow> (Inl e, s0)
        | Inr (ov, ip1) \<Rightarrow>
     (case dict_pop ''filename'' ip1 of
          Inl e \<Rightarrow> (Inl e, s0)
        | Inr (fn, ip2) \<Rightarrow>
     (case dict_pop ''hq'' ip2 of
          Inl e \<Rightarrow> (Inl e, s0)
        | Inr (h, ip3) \<Rightarrow>
     (case dict_pop ''timeout'' ip3 of
          Inl e \<Rightarrow> (Inl e, s0)
        | Inr (tm, ip4) \<Rightarrow>
       (let s1 = call ''queueMovie'' ip4 (fst (queue_reply w)) s0
        in case snd (queue_reply w) of
             Inl e \<Rightarrow> (Inl e, s1)
           | Inr r \<Rightarrow>
             if truthy (dict_get r ''error'') then
               (case subscript r ''error'' of
                  Inl e \<Rightarrow> (Inl e, s1)
                | Inr m \<Rightarrow> (Inl (RuntimeError m), s1))
             else
               (case time s1 of (t, s2) \<Rightarrow>
                 (case py_number tm of
                    None \<Rightarrow> (Inl TypeError, s2)
                  | Some n \<Rightarrow>
                      (Inr \<lparr>res = r, overwrite' = ov, filename' = fn, hq' = h,
                            timeout' = tm, timeout_counter = t + 60 * n\<rparr>, s2))))))))"

subsection \<open>The polling loop (lines 98 to 111)\<close>

text \<open>The keyword arguments of \<^verbatim>\<open>getMovieStatus\<close>, evaluated left to right.\<close>

definition status_kwargs :: "pydict \<Rightarrow> string \<Rightarrow> exn + pydict" where
  "status_kwargs r fmt =
     (case subscript r ''id'' of
        Inl e \<Rightarrow> Inl e
      | Inr i \<Rightarrow>
        (case subscript r ''token'' of
           Inl e \<Rightarrow> Inl e
         | Inr tk \<Rightarrow> Inr [(''id'', i), (''format'', PStr fmt), (''token'', tk)]))"

definition timeout_error :: "(pyval \<Rightarrow> string) \<Rightarrow> pyval \<Rightarrow> exn" where
  "timeout_error ext tm =
     RuntimeError (PStr (''Exceeded timeout of '' @ py_str ext tm @ '' minutes.''))"

datatype step = Continue | Break | Raise exn

text \<open>
  One iteration, from the call of \<^verbatim>\<open>getMovieStatus\<close> with the arguments \<open>kw\<close> and
  the reply \<open>r\<close> to the end of the body. The four \<^verbatim>\<open>if\<close> statements are in the
  order of the source.
\<close>

definition poll_once ::
  "(pyval \<Rightarrow> string) \<Rightarrow> frame \<Rightarrow> pydict \<Rightarrow> pydict reply \<Rightarrow> run_state \<Rightarrow> step \<times> run_state" where
  "poll_once ext f kw r s =
    (let s1 = call ''getMovieStatus'' kw (fst r) s
     in case snd r of
          Inl e \<Rightarrow> (Raise e, s1)
        | Inr status \<Rightarrow>
          (case subscript status ''status'' of
             Inl e \<Rightarrow> (Raise e, s1)
           | Inr c \<Rightarrow>
             (let s2 = (if py_eq_int c 0 \<or> py_eq_int c 1 then sleep 3 s1 else s1)
              in if py_eq_int c 2 then (Break, s2)
                 else
                   (case time s2 of (t, s3) \<Rightarrow>
                      if t > timeout_counter f then (Raise (timeout_error ext (timeout' f)), s3)
                      else if py_eq_int c 3 then
                        (case subscript status ''error'' of
                           Inl e \<Rightarrow> (Raise e, s3)
                         | Inr m \<Rightarrow> (Raise (RuntimeError m), s3))
                      else (Continue, s3)))))"

text \<open>
  \<^verbatim>\<open>while True\<close> over the replies observed. The result is \<open>None\<close> when the replies
  are used up and the loop is still running, \<open>Some (Inr ())\<close> after \<^verbatim>\<open>break\<close>,
  \<open>Some (Inl e)\<close> when \<open>e\<close> is raised.
\<close>

fun poll_loop ::
  "(pyval \<Rightarrow> string) \<Rightarrow> string \<Rightarrow> frame \<Rightarrow> pydict reply list \<Rightarrow> run_state
     \<Rightarrow> (exn + unit) option \<times> run_state" where
  "poll_loop ext fmt f [] s =
     (case status_kwargs (res f) fmt of
        Inl e \<Rightarrow> (Some (Inl e), s)
      | Inr kw \<Rightarrow> (None, s))"
| "poll_loop ext fmt f (r # rs) s =
     (case status_kwargs (res f) fmt of
        Inl e \<Rightarrow> (Some (Inl e), s)
      | Inr kw \<Rightarrow>
        (case poll_once ext f kw r s of
           (Raise e, s') \<Rightarrow> (Some (Inl e), s')
         | (Break, s') \<Rightarrow> (Some (Inr ()), s')
         | (Continue, s') \<Rightarrow> poll_loop ext fmt f rs s'))"

subsection \<open>Download and save (lines 112 to 126)\<close>

text \<open>
  The clock is not read after the loop, so the calls of \<^verbatim>\<open>downloadMovie\<close> and
  \<^verbatim>\<open>save_file\<close> are given no duration. A file name passed as a
  \<^verbatim>\<open>Path\<close> is held by its text, and the value returned is \<^verbatim>\<open>Path\<close>
  applied to the resolved name; what \<^verbatim>\<open>pathlib\<close> does to the text of a path is
  not modelled.
\<close>

definition resolve_filename :: "params \<Rightarrow> (pyval \<Rightarrow> string) \<Rightarrow> frame \<Rightarrow> exn + string" where
  "resolve_filename p ext f =
     (if filename' f = PNone then
        (case subscript (res f) ''id'' of
           Inl e \<Rightarrow> Inl e
         | Inr i \<Rightarrow>
             Inr (py_str ext i @ ''_'' @ date_str (startTime p) @ ''_'' @ date_str (endTime p)
                  @ ''.'' @ format p))
      else Inr (py_str ext (filename' f) @ ''.'' @ format p))"

definition retrieve :: "params \<Rightarrow> world \<Rightarrow> frame \<Rightarrow> run_state \<Rightarrow> (exn + pyval) \<times> run_state" where
  "retrieve p w f s =
    (case subscript (res f) ''id'' of
       Inl e \<Rightarrow> (Inl e, s)
     | Inr i \<Rightarrow>
       (let s1 = call ''downloadMovie'' [(''id'', i), (''format'', PStr (format p)), (''hq'', hq' f)] 0 s
        in case download_reply w of
             Inl e \<Rightarrow> (Inl e, s1)
           | Inr binary_data \<Rightarrow>
             (case resolve_filename p (str_ext w) f of
                Inl e \<Rightarrow> (Inl e, s1)
              | Inr fn \<Rightarrow>
                (let kw = [(''data'', binary_data), (''filename'', PStr fn),
                           (''overwrite'', overwrite' f)];
                     s2 = call ''save_file'' kw 0 s1
                 in case save_file w kw of
                      Some e \<Rightarrow> (Inl e, s2)
                    | None \<Rightarrow> (Inr (PPath fn), s2)))))"

subsection \<open>The whole function\<close>

text \<open>
  The outcome is \<open>None\<close> while the run is still polling, \<open>Some (Inl e)\<close> when it raises
  \<open>e\<close>, \<open>Some (Inr v)\<close> when it returns \<open>v\<close>; with it comes the final state, whose
  trace lists the calls made.
\<close>

definition createMovie :: "params \<Rightarrow> world \<Rightarrow> (exn + pyval) option \<times> run_state" where
  "createMovie p w =
    (case submit p w of
       (Inl e, s) \<Rightarrow> (Some (Inl e), s)
     | (Inr f, s) \<Rightarrow>
       (case poll_loop (str_ext w) (format p) f (status_replies w) s of
          (None, s') \<Rightarrow> (None, s')
        | (Some (Inl e), s') \<Rightarrow> (Some (Inl e), s')
        | (Some (Inr u), s') \<Rightarrow>
            (case retrieve p w f s' of (r, s'') \<Rightarrow> (Some r, s''))))"

text \<open>The calls of one collaborator in a trace, by their keyword arguments.\<close>

fun calls :: "string \<Rightarrow> event list \<Rightarrow> pydict list" where
  "calls f [] = []"
| "calls f (Call g kw # es) = (if g = f then kw # calls f es else calls f es)"
| "calls f (e # es) = calls f es"

text \<open>
  The value of \<^verbatim>\<open>timeout_counter\<close> in a run: the clock when
  \<^verbatim>\<open>queueMovie\<close> has returned, plus \<^verbatim>\<open>60 * timeout\<close>.
\<close>

definition deadline :: "params \<Rightarrow> world \<Rightarrow> real" where
  "deadline p w = clock0 w + fst (queue_reply w) + 60 * timeout p"

text \<open>What is left of \<^verbatim>\<open>input_params\<close> after the four \<^verbatim>\<open>pop\<close> calls.\<close>

definition queue_kwargs :: "params \<Rightarrow> pydict" where
  "queue_kwargs p =
     AList.delete ''timeout'' (AList.delete ''hq'' (AList.delete ''filename''
       (AList.delete ''overwrite'' (locals p))))"

section \<open>Example inputs\<close>

text \<open>
  A request for one day of images as an mp4 movie with the default timeout of 5 minutes, and
  a service that answers every call after one second: it accepts the job as number 42,
  reports it queued, then gives an unknown status code, then reports it complete.
\<close>

definition ex_start :: datetime where
  "ex_start = \<lparr>year = 2024, month = 1, day = 1, hour = 0, minute = 0, second = 0, microsecond = 0\<rparr>"

definition ex_end :: datetime where
  "ex_end = \<lparr>year = 2024, month = 1, day = 2, hour = 0, minute = 0, second = 0, microsecond = 0\<rparr>"

definition ex_params :: params where
  "ex_params = \<lparr>startTime = ex_start, endTime = ex_end, layers = ''[10,1,100]'', events = '''',
     eventsLabels = False, imageScale = 1, format = ''mp4'', frameRate = ''15'', maxFrames = None,
     scale = None, scaleType = None, scaleX = None, scaleY = None, movieLength = None,
     watermark = True, width = None, height = None, x0 = None, y0 = None, x1 = None, y1 = None,
     x2 = None, y2 = None, size_arg = 0, movieIcons = None, followViewport = None,
     reqObservationDate = None, overwrite = False, filename = None, hq = False, timeout = 5\<rparr>"

text \<open>The runtime's rendering of the float 5, as far as the examples need it.\<close>

definition ex_str :: "pyval \<Rightarrow> string" where
  "ex_str v = (if v = PFloat 5 then ''5.0'' else ''?'')"

definition ex_world :: world where
  "ex_world = \<lparr>clock0 = 0,
     queue_reply = (1, Inr [(''id'', PStr ''42''), (''token'', PStr ''tk'')]),
     status_replies = [(1, Inr [(''status'', PInt 0)]), (1, Inr [(''status'', PInt 7)]),
                       (1, Inr [(''status'', PInt 2)])],
     download_reply = Inr (PBytes [1, 2, 3]),
     save_file = (\<lambda>kw. None),
     str_ext = ex_str\<rparr>"

text \<open>The job fails, and the second poll is answered after the deadline of 301 seconds.\<close>

definition ex_late_failure :: world where
  "ex_late_failure = ex_world\<lparr>status_replies :=
     [(100, Inr [(''status'', PInt 0)]),
      (200, Inr [(''status'', PInt 3), (''error'', PStr ''Rendering failed'')])]\<rparr>"

text \<open>The job fails, and the only poll takes longer than the whole timeout.\<close>

definition ex_slow_failure :: world where
  "ex_slow_failure = ex_world\<lparr>status_replies :=
     [(301, Inr [(''status'', PInt 3), (''error'', PStr ''boom'')])]\<rparr>"

section \<open>Properties of the phases\<close>

subsection \<open>Submission\<close>

lemma pop_overwrite:
  "dict_pop ''overwrite'' (locals p) =
     Inr (PBool (overwrite p), AList.delete ''overwrite'' (locals p))"
  by (simp add: dict_pop_def locals_def)

lemma pop_filename:
  "dict_pop ''filename'' (AList.delete ''overwrite'' (locals p)) =
     Inr (optional of_str_or_path (filename p),
          AList.delete ''filename'' (AList.delete ''overwrite'' (locals p)))"
  by (simp add: dict_pop_def locals_def)

lemma pop_hq:
  "dict_pop ''hq'' (AList.delete ''filename'' (AList.delete ''overwrite'' (locals p))) =
     Inr (PBool (hq p),
          AList.delete ''hq'' (AList.delete ''filename'' (AList.delete ''overwrite'' (locals p))))"
  by (simp add: dict_pop_def locals_def)

lemma pop_timeout:
  "dict_pop ''timeout''
     (AList.delete ''hq'' (AList.delete ''filename'' (AList.delete ''overwrite'' (locals p)))) =
     Inr (PFloat (timeout p), queue_kwargs p)"
  by (simp add: dict_pop_def locals_def queue_kwargs_def)

text \<open>
  The four \<^verbatim>\<open>pop\<close> calls never raise, so a run starts with the call of
  \<^verbatim>\<open>queueMovie\<close>; the popped values are the arguments of the same names.
\<close>

lemma submit_unfold:
  "submit p w =
    (let s1 = \<lparr>now = clock0 w + fst (queue_reply w),
               trace = [Call ''queueMovie'' (queue_kwargs p)]\<rparr>
     in case snd (queue_reply w) of
          Inl e \<Rightarrow> (Inl e, s1)
        | Inr r \<Rightarrow>
            if truthy (dict_get r ''error'') then
              (case subscript r ''error'' of
                 Inl e \<Rightarrow> (Inl e, s1)
               | Inr m \<Rightarrow> (Inl (RuntimeError m), s1))
            else (Inr \<lparr>res = r, overwrite' = PBool (overwrite p),
                       filename' = optional of_str_or_path (filename p), hq' = PBool (hq p),
                       timeout' = PFloat (timeout p), timeout_counter = deadline p w\<rparr>,
                  s1\<lparr>trace := trace s1 @ [TimeRead]\<rparr>))"
  by (simp add: submit_def pop_overwrite pop_filename pop_hq pop_timeout call_def time_def
      deadline_def Let_def split: sum.splits)

subsection \<open>The loop over more replies\<close>

lemma poll_loop_append:
  "poll_loop ext fmt f (xs @ ys) s =
     (case poll_loop ext fmt f xs s of
        (None, s') \<Rightarrow> poll_loop ext fmt f ys s'
      | (Some r, s') \<Rightarrow> (Some r, s'))"
proof (induction xs arbitrary: s)
  case Nil
  show ?case by (cases ys) (simp_all split: sum.splits)
next
  case (Cons x xs)
  show ?case by (simp add: Cons.IH split: sum.splits prod.splits step.splits)
qed

lemma calls_append: "calls g (xs @ ys) = calls g xs @ calls g ys"
  by (induction g xs rule: calls.induct) simp_all

text \<open>Submission and retrieval do not look at the status replies.\<close>

lemma submit_status_replies [simp]: "submit p (w\<lparr>status_replies := rs\<rparr>) = submit p w"
  by (simp add: submit_unfold deadline_def Let_def split: sum.splits)

lemma retrieve_status_replies [simp]: "retrieve p (w\<lparr>status_replies := rs\<rparr>) f s = retrieve p w f s"
  by (simp add: retrieve_def Let_def split: sum.splits option.splits)

lemma submit_Inr:
  assumes "submit p w = (Inr f, s0)"
  shows "snd (queue_reply w) = Inr (res f)" and "\<not> truthy (dict_get (res f) ''error'')"
    and "overwrite' f = PBool (overwrite p)"
    and "filename' f = optional of_str_or_path (filename p)"
    and "hq' f = PBool (hq p)" and "timeout' f = PFloat (timeout p)"
    and "timeout_counter f = deadline p w"
    and "s0 = \<lparr>now = clock0 w + fst (queue_reply w), trace = [Call ''queueMovie'' (queue_kwargs p), TimeRead]\<rparr>"
  using assms by (auto simp: submit_unfold Let_def split: sum.splits if_splits)

subsection \<open>A run that is still polling\<close>

lemma poll_loop_None:
  "poll_loop ext fmt f rs s = (None, s') \<Longrightarrow> \<exists>kw. status_kwargs (res f) fmt = Inr kw"
  by (cases rs) (auto split: sum.splits)

lemma still_polling:
  assumes "createMovie p (w\<lparr>status_replies := pre\<rparr>) = (None, s)"
  obtains f s0 kw where "submit p w = (Inr f, s0)"
    and "poll_loop (str_ext w) (format p) f pre s0 = (None, s)"
    and "status_kwargs (res f) (format p) = Inr kw"
proof -
  from assms obtain f s0 where sub: "submit p w = (Inr f, s0)"
    by (auto simp: createMovie_def split: prod.splits sum.splits)
  with assms have loop: "poll_loop (str_ext w) (format p) f pre s0 = (None, s)"
    by (auto simp: createMovie_def split: prod.splits sum.splits option.splits)
  from poll_loop_None [OF loop] obtain kw where "status_kwargs (res f) (format p) = Inr kw" ..
  with sub loop show thesis by (rule that)
qed

lemma createMovie_resume:
  assumes "submit p w = (Inr f, s0)"
    and "poll_loop (str_ext w) (format p) f pre s0 = (None, s)"
    and "status_replies w = pre @ ys"
  shows "createMovie p w =
    (case poll_loop (str_ext w) (format p) f ys s of
       (None, s') \<Rightarrow> (None, s')
     | (Some (Inl e), s') \<Rightarrow> (Some (Inl e), s')
     | (Some (Inr u), s') \<Rightarrow> (case retrieve p w f s' of (r, s'') \<Rightarrow> (Some r, s'')))"
  using assms by (simp add: createMovie_def poll_loop_append)

subsection \<open>What the phases add to the trace\<close>

lemma poll_once_trace:
  "\<exists>t. trace (snd (poll_once ext f kw r s)) = trace s @ Call ''getMovieStatus'' kw # t
       \<and> set t \<subseteq> {Sleep 3, TimeRead}"
  by (auto simp: poll_once_def call_def sleep_def time_def Let_def split: sum.splits prod.splits)

lemma calls_no_call: "set t \<subseteq> {Sleep 3, TimeRead} \<Longrightarrow> calls g t = []"
  by (induction g t rule: calls.induct) auto

lemma poll_once_calls:
  "g \<noteq> ''getMovieStatus'' \<Longrightarrow> calls g (trace (snd (poll_once ext f kw r s))) = calls g (trace s)"
  using poll_once_trace [of ext f kw r s] by (auto simp: calls_append calls_no_call)

lemma poll_loop_calls:
  "g \<noteq> ''getMovieStatus'' \<Longrightarrow> calls g (trace (snd (poll_loop ext fmt f rs s))) = calls g (trace s)"
proof (induction rs arbitrary: s)
  case Nil
  show ?case by (simp split: sum.splits)
next
  case (Cons r rs)
  show ?case
  proof (cases "status_kwargs (res f) fmt")
    case (Inl e)
    then show ?thesis by simp
  next
    case (Inr kw)
    obtain st s' where po: "poll_once ext f kw r s = (st, s')" by (cases "poll_once ext f kw r s")
    with poll_once_calls [OF Cons.prems, of ext f kw r s]
    have "calls g (trace s') = calls g (trace s)" by simp
    with Inr po Cons.IH [OF Cons.prems, of s'] show ?thesis
      by (cases st) simp_all
  qed
qed

lemma retrieve_trace:
  assumes "map_of (res f) ''id'' = Some i"
  shows "\<exists>rest. trace (snd (retrieve p w f s)) =
           trace s @ Call ''downloadMovie'' [(''id'', i), (''format'', PStr (format p)), (''hq'', hq' f)] # rest
         \<and> (rest = [] \<or> (\<exists>kw. rest = [Call ''save_file'' kw]))"
  using assms
  by (auto simp: retrieve_def subscript_def call_def Let_def split: sum.splits option.splits)

lemma status_kwargs_id:
  "status_kwargs r fmt = Inr kw \<Longrightarrow> \<exists>i tk. map_of r ''id'' = Some i \<and> map_of r ''token'' = Some tk
      \<and> kw = [(''id'', i), (''format'', PStr fmt), (''token'', tk)]"
  by (auto simp: status_kwargs_def subscript_def split: option.splits)

subsection \<open>Evaluation\<close>

lemmas run_defs = createMovie_def submit_def locals_def dict_pop_def optional_def call_def
  time_def sleep_def dict_get_def subscript_def status_kwargs_def poll_once_def retrieve_def
  resolve_filename_def timeout_error_def date_str_def zfill_def dec.simps queue_kwargs_def
  deadline_def

lemmas ex_defs = ex_params_def ex_world_def ex_start_def ex_end_def ex_str_def

lemma py_eq_int_inj: "py_eq_int c a \<Longrightarrow> py_eq_int c b \<Longrightarrow> a = b"
  by (cases c) (auto split: if_splits)

lemma still_polling_no_download:
  assumes "submit p w = (Inr f, s0)" and "poll_loop ext fmt f pre s0 = (None, s)"
  shows "calls ''downloadMovie'' (trace s) = []"
proof -
  have "calls ''downloadMovie'' (trace s) = calls ''downloadMovie'' (trace s0)"
    using poll_loop_calls [of "''downloadMovie''" ext fmt f pre s0] assms(2) by simp
  then show ?thesis by (simp add: submit_Inr(8) [OF assms(1)])
qed

lemma retrieve_trace_ext: "\<exists>t. trace (snd (retrieve p w f s)) = trace s @ t"
  by (auto simp: retrieve_def call_def Let_def split: sum.splits option.splits)

lemma poll_loop_trace_ext: "\<exists>t. trace (snd (poll_loop ext fmt f rs s)) = trace s @ t"
proof (induction rs arbitrary: s)
  case Nil
  show ?case by (simp split: sum.splits)
next
  case (Cons r rs)
  show ?case
  proof (cases "status_kwargs (res f) fmt")
    case (Inl e)
    then show ?thesis by simp
  next
    case (Inr kw)
    obtain st s' where po: "poll_once ext f kw r s = (st, s')" by (cases "poll_once ext f kw r s")
    from poll_once_trace [of ext f kw r s] po obtain t where t: "trace s' = trace s @ Call ''getMovieStatus'' kw # t"
      by auto
    from Cons.IH [of s'] obtain t' where "trace (snd (poll_loop ext fmt f rs s')) = trace s' @ t'" ..
    with Inr po t show ?thesis by (cases st) simp_all
  qed
qed

lemma poll_loop_Cons_trace:
  assumes "status_kwargs (res f) fmt = Inr kw"
  shows "\<exists>t. trace (snd (poll_loop ext fmt f (r # rs) s)) = trace s @ Call ''getMovieStatus'' kw # t"
proof -
  obtain st s' where po: "poll_once ext f kw r s = (st, s')" by (cases "poll_once ext f kw r s")
  from poll_once_trace [of ext f kw r s] po obtain t where t: "trace s' = trace s @ Call ''getMovieStatus'' kw # t"
    by auto
  from poll_loop_trace_ext [of ext fmt f rs s'] obtain t' where "trace (snd (poll_loop ext fmt f rs s')) = trace s' @ t'" ..
  with assms po t show ?thesis by (cases st) simp_all
qed

lemma resume_trace:
  assumes "submit p w = (Inr f, s0)"
    and "poll_loop (str_ext w) (format p) f pre s0 = (None, s)"
    and "status_replies w = pre @ r # ys"
    and "status_kwargs (res f) (format p) = Inr kw"
  shows "\<exists>t. trace (snd (createMovie p w)) = trace s @ Call ''getMovieStatus'' kw # t"
proof -
  let ?L = "poll_loop (str_ext w) (format p) f (r # ys) s"
  from poll_loop_Cons_trace [OF assms(4), of "str_ext w" r ys s] obtain t where
    t: "trace (snd ?L) = trace s @ Call ''getMovieStatus'' kw # t" ..
  obtain out s' where L: "?L = (out, s')" by (cases ?L)
  from retrieve_trace_ext [of p w f s'] obtain t' where
    t': "trace (snd (retrieve p w f s')) = trace s' @ t'" ..
  have cm: "createMovie p w =
    (case ?L of
       (None, s') \<Rightarrow> (None, s')
     | (Some (Inl e), s') \<Rightarrow> (Some (Inl e), s')
     | (Some (Inr u), s') \<Rightarrow> (case retrieve p w f s' of (r, s'') \<Rightarrow> (Some r, s'')))"
    by (rule createMovie_resume [OF assms(1,2,3)])
  show ?thesis
  proof (cases out)
    case None
    with L t show ?thesis by (simp add: cm)
  next
    case (Some x)
    show ?thesis
    proof (cases x)
      case (Inl e)
      with Some L t show ?thesis by (simp add: cm)
    next
      case (Inr u)
      with Some L t t' show ?thesis by (cases "retrieve p w f s'") (simp add: cm)
    qed
  qed
qed

text \<open>One more reply after a run that is still polling.\<close>

lemma createMovie_one_more:
  assumes "submit p w = (Inr f, s0)"
    and "poll_loop (str_ext w) (format p) f pre s0 = (None, s)"
    and "status_kwargs (res f) (format p) = Inr kw"
  shows "createMovie p (w\<lparr>status_replies := pre @ [r]\<rparr>) =
    (case poll_once (str_ext w) f kw r s of
       (Raise e, s') \<Rightarrow> (Some (Inl e), s')
     | (Break, s') \<Rightarrow> (case retrieve p w f s' of (v, s'') \<Rightarrow> (Some v, s''))
     | (Continue, s') \<Rightarrow> (None, s'))"
proof -
  let ?w = "w\<lparr>status_replies := pre @ [r]\<rparr>"
  have sub: "submit p ?w = (Inr f, s0)" using assms(1) by simp
  have loop: "poll_loop (str_ext ?w) (format p) f pre s0 = (None, s)" using assms(2) by simp
  have reps: "status_replies ?w = pre @ [r]" by simp
  obtain st s' where po: "poll_once (str_ext w) f kw r s = (st, s')"
    by (cases "poll_once (str_ext w) f kw r s")
  show ?thesis
    using assms(3) po by (cases st) (simp_all add: createMovie_resume [OF sub loop reps])
qed

lemma createMovie_next:
  assumes "submit p w = (Inr f, s0)"
    and "poll_loop (str_ext w) (format p) f pre s0 = (None, s)"
    and "status_kwargs (res f) (format p) = Inr kw"
    and "status_replies w = pre @ r # post"
  shows "createMovie p w =
    (case poll_once (str_ext w) f kw r s of
       (Raise e, s') \<Rightarrow> (Some (Inl e), s')
     | (Break, s') \<Rightarrow> (case retrieve p w f s' of (v, s'') \<Rightarrow> (Some v, s''))
     | (Continue, s') \<Rightarrow>
        (case poll_loop (str_ext w) (format p) f post s' of
           (None, s') \<Rightarrow> (None, s')
         | (Some (Inl e), s') \<Rightarrow> (Some (Inl e), s')
         | (Some (Inr u), s') \<Rightarrow> (case retrieve p w f s' of (r, s'') \<Rightarrow> (Some r, s''))))"
  using createMovie_resume [OF assms(1,2,4)] assms(3)
  by (simp split: prod.splits step.splits)

subsection \<open>One iteration by its status code\<close>

lemma poll_once_status:
  assumes "map_of st ''status'' = Some c"
  shows "fst (poll_once ext f kw (lat, Inr st) s) =
    (if py_eq_int c 2 then Break
     else if timeout_counter f < now s + lat + (if py_eq_int c 0 \<or> py_eq_int c 1 then 3 else 0)
       then Raise (timeout_error ext (timeout' f))
     else if py_eq_int c 3
       then Raise (case map_of st ''error'' of None \<Rightarrow> KeyError ''error'' | Some m \<Rightarrow> RuntimeError m)
     else Continue)"
  using assms
  by (simp add: poll_once_def subscript_def call_def sleep_def time_def Let_def split: option.splits)

lemma poll_once_state:
  assumes "map_of st ''status'' = Some c"
  shows "snd (poll_once ext f kw (lat, Inr st) s) =
    s\<lparr>now := now s + lat + (if py_eq_int c 0 \<or> py_eq_int c 1 then 3 else 0),
      trace := trace s @ Call ''getMovieStatus'' kw #
        (if py_eq_int c 0 \<or> py_eq_int c 1 then [Sleep 3] else []) @
        (if py_eq_int c 2 then [] else [TimeRead])\<rparr>"
  using assms
  by (simp add: poll_once_def subscript_def call_def sleep_def time_def Let_def split: option.splits)

lemma raising_poll:
  assumes "submit p w = (Inr f, s0)"
    and "poll_loop (str_ext w) (format p) f pre s0 = (None, s)"
    and "status_kwargs (res f) (format p) = Inr kw"
    and "status_replies w = pre @ r # post"
    and "fst (poll_once (str_ext w) f kw r s) = Raise e"
  shows "fst (createMovie p w) = Some (Inl e)
       \<and> calls ''downloadMovie'' (trace (snd (createMovie p w))) = []"
proof -
  obtain s' where po: "poll_once (str_ext w) f kw r s = (Raise e, s')"
    using assms(5) by (cases "poll_once (str_ext w) f kw r s") simp
  have cm: "createMovie p w = (Some (Inl e), s')"
    using createMovie_next [OF assms(1,2,3,4)] po by simp
  have "calls ''downloadMovie'' (trace s') = calls ''downloadMovie'' (trace s)"
    using poll_once_calls [of "''downloadMovie''" "str_ext w" f kw r s] po by simp
  with still_polling_no_download [OF assms(1,2)] cm show ?thesis by simp
qed

lemma raising_poll_state:
  assumes "submit p w = (Inr f, s0)"
    and "poll_loop (str_ext w) (format p) f pre s0 = (None, s)"
    and "status_kwargs (res f) (format p) = Inr kw"
    and "status_replies w = pre @ r # post"
    and "fst (poll_once (str_ext w) f kw r s) = Raise e"
  shows "snd (createMovie p w) = snd (poll_once (str_ext w) f kw r s)"
proof -
  obtain s' where po: "poll_once (str_ext w) f kw r s = (Raise e, s')"
    using assms(5) by (cases "poll_once (str_ext w) f kw r s") simp
  show ?thesis using createMovie_next [OF assms(1,2,3,4)] po by simp
qed

lemma breaking_poll:
  assumes "submit p w = (Inr f, s0)"
    and "poll_loop (str_ext w) (format p) f pre s0 = (None, s)"
    and "status_kwargs (res f) (format p) = Inr kw"
    and "status_replies w = pre @ r # post"
    and "fst (poll_once (str_ext w) f kw r s) = Break"
  shows "length (calls ''downloadMovie'' (trace (snd (createMovie p w)))) = 1"
proof -
  obtain s' where po: "poll_once (str_ext w) f kw r s = (Break, s')"
    using assms(5) by (cases "poll_once (str_ext w) f kw r s") simp
  have cm: "createMovie p w = (case retrieve p w f s' of (v, s'') \<Rightarrow> (Some v, s''))"
    using createMovie_next [OF assms(1,2,3,4)] po by simp
  have "calls ''downloadMovie'' (trace s') = calls ''downloadMovie'' (trace s)"
    using poll_once_calls [of "''downloadMovie''" "str_ext w" f kw r s] po by simp
  with still_polling_no_download [OF assms(1,2)]
  have nd: "calls ''downloadMovie'' (trace s') = []" by simp
  from status_kwargs_id [OF assms(3)] obtain i where i: "map_of (res f) ''id'' = Some i" by blast
  from retrieve_trace [OF i, of p w s'] obtain rest where
    tr: "trace (snd (retrieve p w f s')) =
           trace s' @ Call ''downloadMovie'' [(''id'', i), (''format'', PStr (format p)), (''hq'', hq' f)] # rest"
    and rest: "rest = [] \<or> (\<exists>kw. rest = [Call ''save_file'' kw])" by blast
  have "trace (snd (createMovie p w)) = trace (snd (retrieve p w f s'))"
    by (cases "retrieve p w f s'") (simp add: cm)
  with tr rest nd show ?thesis by (auto simp: calls_append)
qed

subsection \<open>An iteration that neither breaks nor raises\<close>

lemma unknown_code_run:
  assumes "status_replies w = pre @ (lat, Inr st) # post"
    and "createMovie p (w\<lparr>status_replies := pre\<rparr>) = (None, s)"
    and "map_of st ''status'' = Some c"
    and "\<not> py_eq_int c 0" and "\<not> py_eq_int c 1" and "\<not> py_eq_int c 2" and "\<not> py_eq_int c 3"
    and "now s + lat \<le> deadline p w"
  shows "\<exists>kw. createMovie p (w\<lparr>status_replies := pre @ [(lat, Inr st)]\<rparr>) =
               (None, s\<lparr>now := now s + lat,
                        trace := trace s @ [Call ''getMovieStatus'' kw, TimeRead]\<rparr>)
            \<and> (post \<noteq> [] \<longrightarrow>
                 (\<exists>rest. trace (snd (createMovie p w)) =
                    trace s @ [Call ''getMovieStatus'' kw, TimeRead, Call ''getMovieStatus'' kw] @ rest))"
proof -
  from still_polling [OF assms(2)] obtain f s0 kw where sub: "submit p w = (Inr f, s0)"
    and loop: "poll_loop (str_ext w) (format p) f pre s0 = (None, s)"
    and kw: "status_kwargs (res f) (format p) = Inr kw" by blast
  note fr = submit_Inr(6,7) [OF sub]
  let ?r = "(lat, Inr st) :: pydict reply"
  let ?s' = "s\<lparr>now := now s + lat, trace := trace s @ [Call ''getMovieStatus'' kw, TimeRead]\<rparr>"
  have po1: "fst (poll_once (str_ext w) f kw ?r s) = Continue"
    using assms(4-8) by (simp add: poll_once_status [OF assms(3)] fr)
  have po2: "snd (poll_once (str_ext w) f kw ?r s) = ?s'"
    using assms(4-7) by (simp add: poll_once_state [OF assms(3)])
  have po: "poll_once (str_ext w) f kw ?r s = (Continue, ?s')"
    using po1 po2 by (simp add: prod_eq_iff)
  have one: "createMovie p (w\<lparr>status_replies := pre @ [?r]\<rparr>) = (None, ?s')"
    using createMovie_one_more [OF sub loop kw, of ?r] po by simp
  have loop': "poll_loop (str_ext w) (format p) f (pre @ [?r]) s0 = (None, ?s')"
    by (simp add: poll_loop_append loop kw po)
  have "\<exists>rest. trace (snd (createMovie p w)) =
          trace s @ [Call ''getMovieStatus'' kw, TimeRead, Call ''getMovieStatus'' kw] @ rest"
    if "post \<noteq> []"
  proof -
    from that obtain nxt post' where "post = nxt # post'" by (cases post) auto
    with assms(1) have reps: "status_replies w = (pre @ [?r]) @ nxt # post'" by simp
    from resume_trace [OF sub loop' reps kw] show ?thesis by simp
  qed
  with one show ?thesis by blast
qed

lemma retrieve_calls:
  assumes "g \<noteq> ''save_file''"
  shows "calls g (trace (snd (retrieve p w f s))) =
     calls g (trace s) @
     (if g = ''downloadMovie'' then
        (case map_of (res f) ''id'' of
           None \<Rightarrow> []
         | Some i \<Rightarrow> [[(''id'', i), (''format'', PStr (format p)), (''hq'', hq' f)]])
      else [])"
  using assms
  by (auto simp: retrieve_def subscript_def call_def calls_append Let_def
      split: sum.splits option.splits)

text \<open>The calls of \<^verbatim>\<open>queueMovie\<close> and \<^verbatim>\<open>downloadMovie\<close> of a whole run.\<close>

lemma createMovie_calls:
  assumes "g = ''queueMovie'' \<or> g = ''downloadMovie''"
  shows "calls g (trace (snd (createMovie p w))) =
     (if g = ''queueMovie'' then [queue_kwargs p] else []) @
     (if g = ''downloadMovie'' then
        (case submit p w of
           (Inl e, s) \<Rightarrow> []
         | (Inr f, s) \<Rightarrow>
            (case fst (poll_loop (str_ext w) (format p) f (status_replies w) s) of
               Some (Inr u) \<Rightarrow>
                 (case map_of (res f) ''id'' of
                    None \<Rightarrow> []
                  | Some i \<Rightarrow> [[(''id'', i), (''format'', PStr (format p)), (''hq'', hq' f)]])
             | _ \<Rightarrow> []))
      else [])"
proof -
  have g: "g \<noteq> ''getMovieStatus''" "g \<noteq> ''save_file''" using assms by auto
  obtain x s where sub: "submit p w = (x, s)" by (cases "submit p w")
  show ?thesis
  proof (cases x)
    case (Inl e)
    with sub have "trace s = [Call ''queueMovie'' (queue_kwargs p)]"
      by (auto simp: submit_unfold Let_def split: sum.splits if_splits)
    with sub Inl assms show ?thesis by (auto simp: createMovie_def)
  next
    case (Inr f)
    with sub have s: "s = \<lparr>now = clock0 w + fst (queue_reply w),
        trace = [Call ''queueMovie'' (queue_kwargs p), TimeRead]\<rparr>"
      using submit_Inr(8) by blast
    obtain out s' where L: "poll_loop (str_ext w) (format p) f (status_replies w) s = (out, s')"
      by (cases "poll_loop (str_ext w) (format p) f (status_replies w) s")
    have "calls g (trace s') = calls g (trace s)"
      using poll_loop_calls [OF g(1), of "str_ext w" "format p" f "status_replies w" s] L by simp
    then have c: "calls g (trace s') = (if g = ''queueMovie'' then [queue_kwargs p] else [])"
      using assms by (auto simp: s)
    show ?thesis
    proof (cases out)
      case None
      with sub Inr L c show ?thesis by (simp add: createMovie_def)
    next
      case (Some y)
      show ?thesis
      proof (cases y)
        case (Inl e)
        with Some sub Inr L c show ?thesis by (simp add: createMovie_def)
      next
        case Inr': (Inr u)
        have "trace (snd (createMovie p w)) = trace (snd (retrieve p w f s'))"
          using Some sub Inr L Inr' by (cases "retrieve p w f s'") (simp add: createMovie_def)
        with Some sub Inr L Inr' c retrieve_calls [OF g(2), of p w f s'] show ?thesis
          by simp
      qed
    qed
  qed
qed

section \<open>The claims\<close>

text \<open>
  In the theorems below a run reaches a poll when the run over the replies before it is
  still polling: \<open>createMovie p (w\<lparr>status_replies := pre\<rparr>) = (None, s)\<close>, with \<open>s\<close>
  the state in which the poll is made.
\<close>

text \<open>
  C4: if the response of \<^verbatim>\<open>queueMovie\<close> has a non-empty \<^verbatim>\<open>error\<close> string,
  createMovie raises a \<^verbatim>\<open>RuntimeError\<close> whose argument is exactly that string, and
  the call of \<^verbatim>\<open>queueMovie\<close> is the only call of the run: neither
  \<^verbatim>\<open>getMovieStatus\<close> nor \<^verbatim>\<open>downloadMovie\<close> is called.
\<close>

theorem submit_error_is_fatal:
  assumes "snd (queue_reply w) = Inr r" and "map_of r ''error'' = Some (PStr m)" and "m \<noteq> []"
  shows "fst (createMovie p w) = Some (Inl (RuntimeError (PStr m)))
       \<and> trace (snd (createMovie p w)) = [Call ''queueMovie'' (queue_kwargs p)]
       \<and> calls ''getMovieStatus'' (trace (snd (createMovie p w))) = []
       \<and> calls ''downloadMovie'' (trace (snd (createMovie p w))) = []"
  using assms by (simp add: createMovie_def submit_unfold dict_get_def subscript_def)

theorem submit_error_is_fatal_witness:
  "fst (createMovie ex_params (ex_world\<lparr>queue_reply := (1, Inr [(''error'', PStr ''bad layers'')])\<rparr>))
     = Some (Inl (RuntimeError (PStr ''bad layers'')))
   \<and> calls ''getMovieStatus''
       (trace (snd (createMovie ex_params (ex_world\<lparr>queue_reply := (1, Inr [(''error'', PStr ''bad layers'')])\<rparr>)))) = []
   \<and> calls ''downloadMovie''
       (trace (snd (createMovie ex_params (ex_world\<lparr>queue_reply := (1, Inr [(''error'', PStr ''bad layers'')])\<rparr>)))) = []"
  using submit_error_is_fatal [of "ex_world\<lparr>queue_reply := (1, Inr [(''error'', PStr ''bad layers'')])\<rparr>"
    "[(''error'', PStr ''bad layers'')]" "''bad layers''" ex_params]
  by simp

text \<open>
  C3: when a run reaches a poll that returns status 2, the trace continues with that call
  of \<^verbatim>\<open>getMovieStatus\<close>, directly followed by the call of
  \<^verbatim>\<open>downloadMovie\<close> and at most the call of \<^verbatim>\<open>save_file\<close>: no further
  poll, no sleep and no reading of the clock; \<^verbatim>\<open>downloadMovie\<close> is called
  exactly once in the whole run; and the run has an outcome, it is no longer polling.
\<close>

theorem complete_poll_ends_loop:
  assumes "status_replies w = pre @ (lat, Inr st) # post"
    and "createMovie p (w\<lparr>status_replies := pre\<rparr>) = (None, s)"
    and "map_of st ''status'' = Some c" and "py_eq_int c 2"
  shows "\<exists>kw kw' rest.
           trace (snd (createMovie p w)) =
             trace s @ [Call ''getMovieStatus'' kw, Call ''downloadMovie'' kw'] @ rest
         \<and> (rest = [] \<or> (\<exists>kw''. rest = [Call ''save_file'' kw'']))
         \<and> length (calls ''downloadMovie'' (trace (snd (createMovie p w)))) = 1
         \<and> fst (createMovie p w) \<noteq> None"
proof -
  from still_polling [OF assms(2)] obtain f s0 kw where sub: "submit p w = (Inr f, s0)"
    and loop: "poll_loop (str_ext w) (format p) f pre s0 = (None, s)"
    and kw: "status_kwargs (res f) (format p) = Inr kw" by blast
  from status_kwargs_id [OF kw] obtain i where i: "map_of (res f) ''id'' = Some i" by blast
  have c01: "\<not> py_eq_int c 0" "\<not> py_eq_int c 1"
    using py_eq_int_inj [OF assms(4)] by fastforce+
  let ?s1 = "call ''getMovieStatus'' kw lat s"
  have po: "poll_once (str_ext w) f kw (lat, Inr st) s = (Break, ?s1)"
    using assms(3,4) c01 by (simp add: poll_once_def subscript_def)
  have cm: "createMovie p w = (case retrieve p w f ?s1 of (r, s'') \<Rightarrow> (Some r, s''))"
    using createMovie_resume [OF sub loop assms(1)] kw po by simp
  from retrieve_trace [OF i, of p w ?s1] obtain rest where
    tr: "trace (snd (retrieve p w f ?s1)) =
           trace ?s1 @ Call ''downloadMovie'' [(''id'', i), (''format'', PStr (format p)), (''hq'', hq' f)] # rest"
    and rest: "rest = [] \<or> (\<exists>kw. rest = [Call ''save_file'' kw])" by blast
  have full: "trace (snd (createMovie p w)) =
      trace s @ [Call ''getMovieStatus'' kw,
                 Call ''downloadMovie'' [(''id'', i), (''format'', PStr (format p)), (''hq'', hq' f)]] @ rest"
    using tr by (cases "retrieve p w f ?s1") (simp add: cm call_def)
  have nd: "calls ''downloadMovie'' (trace s) = []"
    by (rule still_polling_no_download [OF sub loop])
  have once: "length (calls ''downloadMovie'' (trace (snd (createMovie p w)))) = 1"
    using rest nd by (auto simp: full calls_append)
  have "fst (createMovie p w) \<noteq> None"
    by (cases "retrieve p w f ?s1") (simp add: cm)
  with full rest once show ?thesis by blast
qed

theorem complete_poll_ends_loop_witness:
  "createMovie ex_params (ex_world\<lparr>status_replies := [(1, Inr [(''status'', PInt 0)]), (1, Inr [(''status'', PInt 7)])]\<rparr>)
     = (None, \<lparr>now = 6, trace = [Call ''queueMovie'' (queue_kwargs ex_params), TimeRead,
          Call ''getMovieStatus'' [(''id'', PStr ''42''), (''format'', PStr ''mp4''), (''token'', PStr ''tk'')],
          Sleep 3, TimeRead,
          Call ''getMovieStatus'' [(''id'', PStr ''42''), (''format'', PStr ''mp4''), (''token'', PStr ''tk'')],
          TimeRead]\<rparr>)
   \<and> length (calls ''downloadMovie'' (trace (snd (createMovie ex_params ex_world)))) = 1"
proof -
  let ?pre = "[(1, Inr [(''status'', PInt 0)]), (1, Inr [(''status'', PInt 7)])] :: pydict reply list"
  let ?s = "\<lparr>now = 6, trace = [Call ''queueMovie'' (queue_kwargs ex_params), TimeRead,
          Call ''getMovieStatus'' [(''id'', PStr ''42''), (''format'', PStr ''mp4''), (''token'', PStr ''tk'')],
          Sleep 3, TimeRead,
          Call ''getMovieStatus'' [(''id'', PStr ''42''), (''format'', PStr ''mp4''), (''token'', PStr ''tk'')],
          TimeRead]\<rparr>"
  have h1: "status_replies ex_world = ?pre @ (1, Inr [(''status'', PInt 2)]) # []"
    by (simp add: ex_world_def)
  have h2: "createMovie ex_params (ex_world\<lparr>status_replies := ?pre\<rparr>) = (None, ?s)"
    by (simp add: run_defs ex_defs)
  have h3: "map_of [(''status'', PInt 2)] ''status'' = Some (PInt 2)" by simp
  have h4: "py_eq_int (PInt 2) 2" by simp
  from complete_poll_ends_loop [OF h1 h2 h3 h4] h2 show ?thesis by blast
qed

text \<open>
  C1 (as amended): in an iteration the clock is read after the sleep and the test for
  status 2, and before the test for status 3. Take a poll that a run reaches, and the clock
  as the iteration reads it: the time the reply arrives, plus the 3 seconds of sleep when the
  status equals 0 or 1. When that clock exceeds \<^verbatim>\<open>timeout_counter\<close>, a status
  equal to 2 still ends the loop and \<^verbatim>\<open>downloadMovie\<close> is called, exactly once;
  any other status, 3 included, makes the run raise the timeout error in that iteration,
  after the sleep (if any) and the reading of the clock, and \<^verbatim>\<open>downloadMovie\<close> is
  not called. So the timeout error is raised only when the status of that iteration is
  not 2.
\<close>

theorem deadline_check_position:
  assumes "status_replies w = pre @ (lat, Inr st) # post"
    and "createMovie p (w\<lparr>status_replies := pre\<rparr>) = (None, s)"
    and "map_of st ''status'' = Some c"
    and "deadline p w < now s + lat + (if py_eq_int c 0 \<or> py_eq_int c 1 then 3 else 0)"
  shows "if py_eq_int c 2
         then length (calls ''downloadMovie'' (trace (snd (createMovie p w)))) = 1
         else fst (createMovie p w) = Some (Inl (timeout_error (str_ext w) (PFloat (timeout p))))
            \<and> calls ''downloadMovie'' (trace (snd (createMovie p w))) = []
            \<and> (\<exists>kw. trace (snd (createMovie p w)) =
                   trace s @ Call ''getMovieStatus'' kw #
                     (if py_eq_int c 0 \<or> py_eq_int c 1 then [Sleep 3] else []) @ [TimeRead])"
proof -
  from still_polling [OF assms(2)] obtain f s0 kw where sub: "submit p w = (Inr f, s0)"
    and loop: "poll_loop (str_ext w) (format p) f pre s0 = (None, s)"
    and kw: "status_kwargs (res f) (format p) = Inr kw" by blast
  note fr = submit_Inr(6,7) [OF sub]
  show ?thesis
  proof (cases "py_eq_int c 2")
    case True
    then have "fst (poll_once (str_ext w) f kw (lat, Inr st) s) = Break"
      by (simp add: poll_once_status [OF assms(3)])
    from breaking_poll [OF sub loop kw assms(1) this] True show ?thesis by simp
  next
    case False
    with assms(4) have po: "fst (poll_once (str_ext w) f kw (lat, Inr st) s) =
        Raise (timeout_error (str_ext w) (PFloat (timeout p)))"
      by (simp add: poll_once_status [OF assms(3)] fr)
    have "trace (snd (createMovie p w)) =
        trace s @ Call ''getMovieStatus'' kw #
          (if py_eq_int c 0 \<or> py_eq_int c 1 then [Sleep 3] else []) @ [TimeRead]"
      using False
      by (simp add: raising_poll_state [OF sub loop kw assms(1) po] poll_once_state [OF assms(3)])
    with raising_poll [OF sub loop kw assms(1) po] False show ?thesis by auto
  qed
qed

theorem deadline_check_position_witness:
  "deadline ex_params ex_late_failure < 104 + 200
   \<and> fst (createMovie ex_params ex_late_failure)
       = Some (Inl (RuntimeError (PStr ''Exceeded timeout of 5.0 minutes.'')))
   \<and> calls ''downloadMovie'' (trace (snd (createMovie ex_params ex_late_failure))) = []
   \<and> deadline ex_params (ex_world\<lparr>status_replies := [(400, Inr [(''status'', PInt 2)])]\<rparr>) < 1 + 400
   \<and> length (calls ''downloadMovie''
        (trace (snd (createMovie ex_params (ex_world\<lparr>status_replies := [(400, Inr [(''status'', PInt 2)])]\<rparr>))))) = 1
   \<and> (1::real) + 299 \<le> deadline ex_params (ex_world\<lparr>status_replies := [(299, Inr [(''status'', PInt 1)])]\<rparr>)
   \<and> deadline ex_params (ex_world\<lparr>status_replies := [(299, Inr [(''status'', PInt 1)])]\<rparr>) < 1 + 299 + 3
   \<and> createMovie ex_params (ex_world\<lparr>status_replies := [(299, Inr [(''status'', PInt 1)])]\<rparr>)
       = (Some (Inl (RuntimeError (PStr ''Exceeded timeout of 5.0 minutes.''))),
          \<lparr>now = 303, trace = [Call ''queueMovie'' (queue_kwargs ex_params), TimeRead,
             Call ''getMovieStatus'' [(''id'', PStr ''42''), (''format'', PStr ''mp4''), (''token'', PStr ''tk'')],
             Sleep 3, TimeRead]\<rparr>)"
proof -
  let ?s = "\<lparr>now = 104, trace = [Call ''queueMovie'' (queue_kwargs ex_params), TimeRead,
          Call ''getMovieStatus'' [(''id'', PStr ''42''), (''format'', PStr ''mp4''), (''token'', PStr ''tk'')],
          Sleep 3, TimeRead]\<rparr>"
  let ?st = "[(''status'', PInt 3), (''error'', PStr ''Rendering failed'')]"
  have a1: "status_replies ex_late_failure = [(100, Inr [(''status'', PInt 0)])] @ (200, Inr ?st) # []"
    by (simp add: ex_defs ex_late_failure_def)
  have a2: "createMovie ex_params (ex_late_failure\<lparr>status_replies := [(100, Inr [(''status'', PInt 0)])]\<rparr>)
      = (None, ?s)"
    by (simp add: run_defs ex_defs ex_late_failure_def)
  have a3: "map_of ?st ''status'' = Some (PInt 3)" by simp
  have a4: "deadline ex_params ex_late_failure
      < now ?s + 200 + (if py_eq_int (PInt 3) 0 \<or> py_eq_int (PInt 3) 1 then 3 else 0)"
    by (simp add: deadline_def ex_defs ex_late_failure_def)
  let ?w = "ex_world\<lparr>status_replies := [(400, Inr [(''status'', PInt 2)])]\<rparr>"
  let ?s0 = "\<lparr>now = 1, trace = [Call ''queueMovie'' (queue_kwargs ex_params), TimeRead]\<rparr>"
  have b1: "status_replies ?w = [] @ (400, Inr [(''status'', PInt 2)]) # []" by simp
  have b2: "createMovie ex_params (?w\<lparr>status_replies := []\<rparr>) = (None, ?s0)"
    by (simp add: run_defs ex_defs)
  have b3: "map_of [(''status'', PInt 2)] ''status'' = Some (PInt 2)" by simp
  have b4: "deadline ex_params ?w
      < now ?s0 + 400 + (if py_eq_int (PInt 2) 0 \<or> py_eq_int (PInt 2) 1 then 3 else 0)"
    by (simp add: deadline_def ex_defs)
  let ?v = "ex_world\<lparr>status_replies := [(299, Inr [(''status'', PInt 1)])]\<rparr>"
  have c1: "status_replies ?v = [] @ (299, Inr [(''status'', PInt 1)]) # []" by simp
  have c2: "createMovie ex_params (?v\<lparr>status_replies := []\<rparr>) = (None, ?s0)"
    by (simp add: run_defs ex_defs)
  have c3: "map_of [(''status'', PInt 1)] ''status'' = Some (PInt 1)" by simp
  have c4: "deadline ex_params ?v
      < now ?s0 + 299 + (if py_eq_int (PInt 1) 0 \<or> py_eq_int (PInt 1) 1 then 3 else 0)"
    by (simp add: deadline_def ex_defs)
  have c5: "(1::real) + 299 \<le> deadline ex_params ?v" by (simp add: deadline_def ex_defs)
  have c6: "createMovie ex_params ?v
       = (Some (Inl (RuntimeError (PStr ''Exceeded timeout of 5.0 minutes.''))),
          \<lparr>now = 303, trace = [Call ''queueMovie'' (queue_kwargs ex_params), TimeRead,
             Call ''getMovieStatus'' [(''id'', PStr ''42''), (''format'', PStr ''mp4''), (''token'', PStr ''tk'')],
             Sleep 3, TimeRead]\<rparr>)"
    by (simp add: run_defs ex_defs)
  from deadline_check_position [OF a1 a2 a3 a4] deadline_check_position [OF b1 b2 b3 b4]
    deadline_check_position [OF c1 c2 c3 c4] a4 b4 c4 c5 c6
  show ?thesis
    by (simp add: timeout_error_def ex_defs ex_late_failure_def)
qed

text \<open>
  The claim as first stated fails for status 3: with the default timeout of 5 minutes the
  deadline is at 301 seconds; the second poll is answered at 304 seconds with status 3 and
  the message \<^verbatim>\<open>Rendering failed\<close>, and the run raises the timeout error, not
  that message.
\<close>

theorem late_failure_counterexample:
  "createMovie ex_params (ex_late_failure\<lparr>status_replies := [(100, Inr [(''status'', PInt 0)])]\<rparr>)
     = (None, \<lparr>now = 104, trace = [Call ''queueMovie'' (queue_kwargs ex_params), TimeRead,
          Call ''getMovieStatus'' [(''id'', PStr ''42''), (''format'', PStr ''mp4''), (''token'', PStr ''tk'')],
          Sleep 3, TimeRead]\<rparr>)
   \<and> deadline ex_params ex_late_failure = 301
   \<and> fst (createMovie ex_params ex_late_failure)
       = Some (Inl (RuntimeError (PStr ''Exceeded timeout of 5.0 minutes.'')))
   \<and> fst (createMovie ex_params ex_late_failure)
       \<noteq> Some (Inl (RuntimeError (PStr ''Rendering failed'')))"
  by (simp add: run_defs ex_defs ex_late_failure_def)

text \<open>
  C2 (as amended): when a run reaches a poll that returns status 3, the run ends in that
  iteration by raising an error, and \<^verbatim>\<open>downloadMovie\<close> is never called. The error
  is the timeout error when the reply arrives after the deadline; otherwise it is a
  \<^verbatim>\<open>RuntimeError\<close> whose argument is exactly the \<^verbatim>\<open>error\<close> value of the
  status response, or \<^verbatim>\<open>KeyError\<close> when the response has no such field.
\<close>

theorem failed_poll_raises:
  assumes "status_replies w = pre @ (lat, Inr st) # post"
    and "createMovie p (w\<lparr>status_replies := pre\<rparr>) = (None, s)"
    and "map_of st ''status'' = Some c"
    and "py_eq_int c 3"
  shows "fst (createMovie p w) =
           Some (Inl (if deadline p w < now s + lat
                      then timeout_error (str_ext w) (PFloat (timeout p))
                      else (case map_of st ''error'' of
                              None \<Rightarrow> KeyError ''error''
                            | Some m \<Rightarrow> RuntimeError m)))
       \<and> calls ''downloadMovie'' (trace (snd (createMovie p w))) = []"
proof -
  from still_polling [OF assms(2)] obtain f s0 kw where sub: "submit p w = (Inr f, s0)"
    and loop: "poll_loop (str_ext w) (format p) f pre s0 = (None, s)"
    and kw: "status_kwargs (res f) (format p) = Inr kw" by blast
  note fr = submit_Inr(6,7) [OF sub]
  have c012: "\<not> py_eq_int c 0" "\<not> py_eq_int c 1" "\<not> py_eq_int c 2"
    using py_eq_int_inj [OF assms(4)] by fastforce+
  have "fst (poll_once (str_ext w) f kw (lat, Inr st) s) =
      Raise (if deadline p w < now s + lat
             then timeout_error (str_ext w) (PFloat (timeout p))
             else (case map_of st ''error'' of
                     None \<Rightarrow> KeyError ''error''
                   | Some m \<Rightarrow> RuntimeError m))"
    using assms(4) c012 by (simp add: poll_once_status [OF assms(3)] fr)
  from raising_poll [OF sub loop kw assms(1) this] show ?thesis .
qed

theorem failed_poll_raises_witness:
  "fst (createMovie ex_params
          (ex_world\<lparr>status_replies := [(1, Inr [(''status'', PInt 3), (''error'', PStr ''boom'')])]\<rparr>))
     = Some (Inl (RuntimeError (PStr ''boom'')))
   \<and> calls ''downloadMovie'' (trace (snd (createMovie ex_params
          (ex_world\<lparr>status_replies := [(1, Inr [(''status'', PInt 3), (''error'', PStr ''boom'')])]\<rparr>)))) = []"
proof -
  let ?st = "[(''status'', PInt 3), (''error'', PStr ''boom'')]"
  let ?w = "ex_world\<lparr>status_replies := [(1, Inr ?st)]\<rparr>"
  let ?s0 = "\<lparr>now = 1, trace = [Call ''queueMovie'' (queue_kwargs ex_params), TimeRead]\<rparr>"
  have a1: "status_replies ?w = [] @ (1, Inr ?st) # []" by simp
  have a2: "createMovie ex_params (?w\<lparr>status_replies := []\<rparr>) = (None, ?s0)"
    by (simp add: run_defs ex_defs)
  have a3: "map_of ?st ''status'' = Some (PInt 3)" by simp
  have a4: "py_eq_int (PInt 3) 3" by simp
  from failed_poll_raises [OF a1 a2 a3 a4] show ?thesis by (simp add: deadline_def ex_defs)
qed

text \<open>
  The claim as first stated fails when the reply is late: the only poll takes 301 seconds and
  is answered at 302 seconds, after the deadline of 301, with status 3 and the message
  \<^verbatim>\<open>boom\<close>; the error raised is the timeout error.
\<close>

theorem slow_failure_counterexample:
  "createMovie ex_params (ex_slow_failure\<lparr>status_replies := []\<rparr>)
     = (None, \<lparr>now = 1, trace = [Call ''queueMovie'' (queue_kwargs ex_params), TimeRead]\<rparr>)
   \<and> createMovie ex_params ex_slow_failure
     = (Some (Inl (RuntimeError (PStr ''Exceeded timeout of 5.0 minutes.''))),
        \<lparr>now = 302, trace = [Call ''queueMovie'' (queue_kwargs ex_params), TimeRead,
          Call ''getMovieStatus'' [(''id'', PStr ''42''), (''format'', PStr ''mp4''), (''token'', PStr ''tk'')],
          TimeRead]\<rparr>)
   \<and> fst (createMovie ex_params ex_slow_failure) \<noteq> Some (Inl (RuntimeError (PStr ''boom'')))"
  by (simp add: run_defs ex_defs ex_slow_failure_def)

text \<open>
  C9: when a run reaches a poll that returns status 3 and the reply arrives by the deadline,
  the \<^verbatim>\<open>error\<close> field of the response is read without a guard: if the field is
  there the run raises \<^verbatim>\<open>RuntimeError\<close> with its value, and if it is missing the
  lookup raises \<^verbatim>\<open>KeyError\<close> instead.
\<close>

theorem failed_status_error_lookup:
  assumes "status_replies w = pre @ (lat, Inr st) # post"
    and "createMovie p (w\<lparr>status_replies := pre\<rparr>) = (None, s)"
    and "map_of st ''status'' = Some c"
    and "py_eq_int c 3"
    and "now s + lat \<le> deadline p w"
  shows "fst (createMovie p w) =
           Some (Inl (case map_of st ''error'' of
                        None \<Rightarrow> KeyError ''error''
                      | Some m \<Rightarrow> RuntimeError m))"
proof -
  from still_polling [OF assms(2)] obtain f s0 kw where sub: "submit p w = (Inr f, s0)"
    and loop: "poll_loop (str_ext w) (format p) f pre s0 = (None, s)"
    and kw: "status_kwargs (res f) (format p) = Inr kw" by blast
  note fr = submit_Inr(6,7) [OF sub]
  have c012: "\<not> py_eq_int c 0" "\<not> py_eq_int c 1" "\<not> py_eq_int c 2"
    using py_eq_int_inj [OF assms(4)] by fastforce+
  have "fst (poll_once (str_ext w) f kw (lat, Inr st) s) =
      Raise (case map_of st ''error'' of
               None \<Rightarrow> KeyError ''error''
             | Some m \<Rightarrow> RuntimeError m)"
    using assms(4,5) c012 by (simp add: poll_once_status [OF assms(3)] fr)
  from raising_poll [OF sub loop kw assms(1) this] show ?thesis by simp
qed

theorem failed_status_error_lookup_witness:
  "now \<lparr>now = 1, trace = [Call ''queueMovie'' (queue_kwargs ex_params), TimeRead]\<rparr> + 1
     \<le> deadline ex_params (ex_world\<lparr>status_replies := [(1, Inr [(''status'', PInt 3)])]\<rparr>)
   \<and> fst (createMovie ex_params (ex_world\<lparr>status_replies := [(1, Inr [(''status'', PInt 3)])]\<rparr>))
     = Some (Inl (KeyError ''error''))"
proof -
  let ?st = "[(''status'', PInt 3)]"
  let ?w = "ex_world\<lparr>status_replies := [(1, Inr ?st)]\<rparr>"
  let ?s0 = "\<lparr>now = 1, trace = [Call ''queueMovie'' (queue_kwargs ex_params), TimeRead]\<rparr>"
  have a1: "status_replies ?w = [] @ (1, Inr ?st) # []" by simp
  have a2: "createMovie ex_params (?w\<lparr>status_replies := []\<rparr>) = (None, ?s0)"
    by (simp add: run_defs ex_defs)
  have a3: "map_of ?st ''status'' = Some (PInt 3)" by simp
  have a4: "py_eq_int (PInt 3) 3" by simp
  have a5: "now ?s0 + 1 \<le> deadline ex_params ?w" by (simp add: deadline_def ex_defs)
  from failed_status_error_lookup [OF a1 a2 a3 a4 a5] a5 show ?thesis by simp
qed

text \<open>
  C7: when a run reaches a poll whose status equals none of 0, 1, 2 and 3 and whose reply
  arrives by the deadline, the iteration neither leaves the loop nor raises: the run over
  the replies up to this one is still polling, having only called
  \<^verbatim>\<open>getMovieStatus\<close> and read the clock; and if the service answers once more, the
  next event of the run is another call of \<^verbatim>\<open>getMovieStatus\<close>.
\<close>

theorem unknown_code_keeps_polling:
  assumes "status_replies w = pre @ (lat, Inr st) # post"
    and "createMovie p (w\<lparr>status_replies := pre\<rparr>) = (None, s)"
    and "map_of st ''status'' = Some c"
    and "\<not> py_eq_int c 0" and "\<not> py_eq_int c 1" and "\<not> py_eq_int c 2" and "\<not> py_eq_int c 3"
    and "now s + lat \<le> deadline p w"
  shows "\<exists>kw. createMovie p (w\<lparr>status_replies := pre @ [(lat, Inr st)]\<rparr>) =
               (None, s\<lparr>now := now s + lat,
                        trace := trace s @ [Call ''getMovieStatus'' kw, TimeRead]\<rparr>)
            \<and> (post \<noteq> [] \<longrightarrow>
                 (\<exists>rest. trace (snd (createMovie p w)) =
                    trace s @ [Call ''getMovieStatus'' kw, TimeRead, Call ''getMovieStatus'' kw] @ rest))"
  using assms by (rule unknown_code_run)

theorem unknown_code_keeps_polling_witness:
  "createMovie ex_params (ex_world\<lparr>status_replies := [(1, Inr [(''status'', PInt 0)])]\<rparr>)
     = (None, \<lparr>now = 5, trace = [Call ''queueMovie'' (queue_kwargs ex_params), TimeRead,
          Call ''getMovieStatus'' [(''id'', PStr ''42''), (''format'', PStr ''mp4''), (''token'', PStr ''tk'')],
          Sleep 3, TimeRead]\<rparr>)
   \<and> (5::real) + 1 \<le> deadline ex_params ex_world
   \<and> (\<exists>kw. createMovie ex_params
          (ex_world\<lparr>status_replies := [(1, Inr [(''status'', PInt 0)]), (1, Inr [(''status'', PInt 7)])]\<rparr>)
        = (None, \<lparr>now = 6, trace = [Call ''queueMovie'' (queue_kwargs ex_params), TimeRead,
             Call ''getMovieStatus'' [(''id'', PStr ''42''), (''format'', PStr ''mp4''), (''token'', PStr ''tk'')],
             Sleep 3, TimeRead, Call ''getMovieStatus'' kw, TimeRead]\<rparr>)
      \<and> (\<exists>rest. trace (snd (createMovie ex_params ex_world)) =
            [Call ''queueMovie'' (queue_kwargs ex_params), TimeRead,
             Call ''getMovieStatus'' [(''id'', PStr ''42''), (''format'', PStr ''mp4''), (''token'', PStr ''tk'')],
             Sleep 3, TimeRead, Call ''getMovieStatus'' kw, TimeRead, Call ''getMovieStatus'' kw] @ rest))"
proof -
  let ?pre = "[(1, Inr [(''status'', PInt 0)])] :: pydict reply list"
  let ?s = "\<lparr>now = 5, trace = [Call ''queueMovie'' (queue_kwargs ex_params), TimeRead,
          Call ''getMovieStatus'' [(''id'', PStr ''42''), (''format'', PStr ''mp4''), (''token'', PStr ''tk'')],
          Sleep 3, TimeRead]\<rparr>"
  have h1: "status_replies ex_world = ?pre @ (1, Inr [(''status'', PInt 7)]) # [(1, Inr [(''status'', PInt 2)])]"
    by (simp add: ex_defs)
  have h2: "createMovie ex_params (ex_world\<lparr>status_replies := ?pre\<rparr>) = (None, ?s)"
    by (simp add: run_defs ex_defs)
  have h3: "map_of [(''status'', PInt 7)] ''status'' = Some (PInt 7)" by simp
  have h4: "\<not> py_eq_int (PInt 7) 0" and h5: "\<not> py_eq_int (PInt 7) 1"
    and h6: "\<not> py_eq_int (PInt 7) 2" and h7: "\<not> py_eq_int (PInt 7) 3" by simp_all
  have h8: "now ?s + 1 \<le> deadline ex_params ex_world" by (simp add: deadline_def ex_defs)
  from unknown_code_keeps_polling [OF h1 h2 h3 h4 h5 h6 h7 h8] h2 h8 show ?thesis by simp
qed

text \<open>
  C10: in the iteration of a poll with status \<open>c\<close>, \<^verbatim>\<open>time.sleep(3)\<close> directly
  follows the call of \<^verbatim>\<open>getMovieStatus\<close> exactly when \<open>c\<close> equals 0 or 1, and
  nothing else the run does up to the end of that iteration (or to its return, when the
  iteration breaks) is a sleep. For a status equal to none of 0, 1, 2 and 3 whose reply
  arrives by the deadline, only the reading of the clock lies between this poll and the next.
\<close>

theorem sleep_only_when_queued_or_processing:
  assumes "status_replies w = pre @ (lat, Inr st) # post"
    and "createMovie p (w\<lparr>status_replies := pre\<rparr>) = (None, s)"
    and "map_of st ''status'' = Some c"
  shows "(\<exists>kw tail.
            trace (snd (createMovie p (w\<lparr>status_replies := pre @ [(lat, Inr st)]\<rparr>))) =
              trace s @ Call ''getMovieStatus'' kw #
                (if py_eq_int c 0 \<or> py_eq_int c 1 then [Sleep 3] else []) @ tail
          \<and> (\<forall>d. Sleep d \<notin> set tail))
       \<and> (\<not> py_eq_int c 0 \<and> \<not> py_eq_int c 1 \<and> \<not> py_eq_int c 2 \<and> \<not> py_eq_int c 3
            \<and> now s + lat \<le> deadline p w \<and> post \<noteq> [] \<longrightarrow>
           (\<exists>kw rest. trace (snd (createMovie p w)) =
              trace s @ [Call ''getMovieStatus'' kw, TimeRead, Call ''getMovieStatus'' kw] @ rest))"
proof
  from still_polling [OF assms(2)] obtain f s0 kw where sub: "submit p w = (Inr f, s0)"
    and loop: "poll_loop (str_ext w) (format p) f pre s0 = (None, s)"
    and kw: "status_kwargs (res f) (format p) = Inr kw" by blast
  let ?r = "(lat, Inr st) :: pydict reply"
  let ?sl = "if py_eq_int c 0 \<or> py_eq_int c 1 then [Sleep 3] else []"
  let ?tr = "if py_eq_int c 2 then [] else [TimeRead]"
  obtain x s' where po: "poll_once (str_ext w) f kw ?r s = (x, s')"
    by (cases "poll_once (str_ext w) f kw ?r s")
  have tr: "trace s' = trace s @ Call ''getMovieStatus'' kw # ?sl @ ?tr"
    using poll_once_state [OF assms(3), of "str_ext w" f kw lat s] po by simp
  have x: "x = Break \<Longrightarrow> py_eq_int c 2"
    using poll_once_status [OF assms(3), of "str_ext w" f kw lat s] po
    by (auto split: if_splits)
  from status_kwargs_id [OF kw] obtain i where i: "map_of (res f) ''id'' = Some i" by blast
  from retrieve_trace [OF i, of p w s'] obtain rest where
    rt: "trace (snd (retrieve p w f s')) =
           trace s' @ Call ''downloadMovie'' [(''id'', i), (''format'', PStr (format p)), (''hq'', hq' f)] # rest"
    and rest: "rest = [] \<or> (\<exists>kw. rest = [Call ''save_file'' kw])" by blast
  let ?run = "createMovie p (w\<lparr>status_replies := pre @ [?r]\<rparr>)"
  have "\<exists>tail. trace (snd ?run) = trace s @ Call ''getMovieStatus'' kw # ?sl @ tail
          \<and> (\<forall>d. Sleep d \<notin> set tail)"
  proof (cases x)
    case Continue
    then have "trace (snd ?run) = trace s @ Call ''getMovieStatus'' kw # ?sl @ ?tr"
      using createMovie_one_more [OF sub loop kw, of ?r] po tr by simp
    moreover have "\<forall>d. Sleep d \<notin> set ?tr" by simp
    ultimately show ?thesis by blast
  next
    case (Raise e)
    then have "trace (snd ?run) = trace s @ Call ''getMovieStatus'' kw # ?sl @ ?tr"
      using createMovie_one_more [OF sub loop kw, of ?r] po tr by simp
    moreover have "\<forall>d. Sleep d \<notin> set ?tr" by simp
    ultimately show ?thesis by blast
  next
    case Break
    let ?tail = "Call ''downloadMovie'' [(''id'', i), (''format'', PStr (format p)), (''hq'', hq' f)] # rest"
    have "trace (snd ?run) = trace (snd (retrieve p w f s'))"
      using createMovie_one_more [OF sub loop kw, of ?r] po Break
      by (cases "retrieve p w f s'") simp
    then have "trace (snd ?run) = trace s @ Call ''getMovieStatus'' kw # ?sl @ ?tail"
      using rt tr x [OF Break] by simp
    moreover have "\<forall>d. Sleep d \<notin> set ?tail" using rest by auto
    ultimately show ?thesis by blast
  qed
  then show "\<exists>kw tail.
            trace (snd (createMovie p (w\<lparr>status_replies := pre @ [(lat, Inr st)]\<rparr>))) =
              trace s @ Call ''getMovieStatus'' kw #
                (if py_eq_int c 0 \<or> py_eq_int c 1 then [Sleep 3] else []) @ tail
          \<and> (\<forall>d. Sleep d \<notin> set tail)" by blast
next
  show "\<not> py_eq_int c 0 \<and> \<not> py_eq_int c 1 \<and> \<not> py_eq_int c 2 \<and> \<not> py_eq_int c 3
            \<and> now s + lat \<le> deadline p w \<and> post \<noteq> [] \<longrightarrow>
           (\<exists>kw rest. trace (snd (createMovie p w)) =
              trace s @ [Call ''getMovieStatus'' kw, TimeRead, Call ''getMovieStatus'' kw] @ rest)"
    using unknown_code_run [OF assms] by blast
qed

theorem sleep_only_when_queued_or_processing_witness:
  "createMovie ex_params (ex_world\<lparr>status_replies := [(1, Inr [(''status'', PInt 0)])]\<rparr>)
     = (None, \<lparr>now = 5, trace = [Call ''queueMovie'' (queue_kwargs ex_params), TimeRead,
          Call ''getMovieStatus'' [(''id'', PStr ''42''), (''format'', PStr ''mp4''), (''token'', PStr ''tk'')],
          Sleep 3, TimeRead]\<rparr>)
   \<and> (5::real) + 1 \<le> deadline ex_params ex_world
   \<and> (\<exists>kw tail. trace (snd (createMovie ex_params
          (ex_world\<lparr>status_replies := [(1, Inr [(''status'', PInt 0)]), (1, Inr [(''status'', PInt 7)])]\<rparr>)))
        = [Call ''queueMovie'' (queue_kwargs ex_params), TimeRead,
             Call ''getMovieStatus'' [(''id'', PStr ''42''), (''format'', PStr ''mp4''), (''token'', PStr ''tk'')],
             Sleep 3, TimeRead, Call ''getMovieStatus'' kw] @ tail
        \<and> (\<forall>d. Sleep d \<notin> set tail))
   \<and> (\<exists>kw rest. trace (snd (createMovie ex_params ex_world)) =
            [Call ''queueMovie'' (queue_kwargs ex_params), TimeRead,
             Call ''getMovieStatus'' [(''id'', PStr ''42''), (''format'', PStr ''mp4''), (''token'', PStr ''tk'')],
             Sleep 3, TimeRead, Call ''getMovieStatus'' kw, TimeRead, Call ''getMovieStatus'' kw] @ rest)"
proof -
  let ?pre = "[(1, Inr [(''status'', PInt 0)])] :: pydict reply list"
  let ?s = "\<lparr>now = 5, trace = [Call ''queueMovie'' (queue_kwargs ex_params), TimeRead,
          Call ''getMovieStatus'' [(''id'', PStr ''42''), (''format'', PStr ''mp4''), (''token'', PStr ''tk'')],
          Sleep 3, TimeRead]\<rparr>"
  have h1: "status_replies ex_world = ?pre @ (1, Inr [(''status'', PInt 7)]) # [(1, Inr [(''status'', PInt 2)])]"
    by (simp add: ex_defs)
  have h2: "createMovie ex_params (ex_world\<lparr>status_replies := ?pre\<rparr>) = (None, ?s)"
    by (simp add: run_defs ex_defs)
  have h3: "map_of [(''status'', PInt 7)] ''status'' = Some (PInt 7)" by simp
  have h8: "now ?s + 1 \<le> deadline ex_params ex_world" by (simp add: deadline_def ex_defs)
  from sleep_only_when_queued_or_processing [OF h1 h2 h3] h2 h8 show ?thesis by simp
qed

text \<open>
  C5: when createMovie returns, the value is the path of the resolved file name: for
  \<^verbatim>\<open>filename=None\<close> it is the \<^verbatim>\<open>id\<close> of the response of
  \<^verbatim>\<open>queueMovie\<close>, the date of \<^verbatim>\<open>startTime\<close> and the date of
  \<^verbatim>\<open>endTime\<close> joined by underscores, then a dot and the format; for a given file
  name it is that name, a dot and the format, whatever the job id and the dates are.
\<close>

theorem output_path:
  assumes "fst (createMovie p w) = Some (Inr v)" and "snd (queue_reply w) = Inr r"
  shows "v = PPath (case filename p of
                      None \<Rightarrow> py_str (str_ext w) (dict_get r ''id'') @ ''_'' @ date_str (startTime p)
                               @ ''_'' @ date_str (endTime p) @ ''.'' @ format p
                    | Some (AsStr n) \<Rightarrow> n @ ''.'' @ format p
                    | Some (AsPath n) \<Rightarrow> n @ ''.'' @ format p)"
proof -
  from assms(1) obtain f s s' s'' where sub: "submit p w = (Inr f, s)"
    and ret: "retrieve p w f s' = (Inr v, s'')"
    by (auto simp: createMovie_def split: prod.splits sum.splits option.splits)
  have r: "res f = r" using submit_Inr(1) [OF sub] assms(2) by simp
  note fn = submit_Inr(4) [OF sub]
  from ret obtain name where name: "resolve_filename p (str_ext w) f = Inr name" and v: "v = PPath name"
    by (auto simp: retrieve_def Let_def split: sum.splits option.splits)
  show ?thesis
  proof (cases "filename p")
    case None
    with name fn r show ?thesis
      by (auto simp: v resolve_filename_def optional_def subscript_def dict_get_def split: option.splits)
  next
    case (Some n)
    with name fn show ?thesis
      by (cases n) (auto simp: v resolve_filename_def optional_def)
  qed
qed

theorem output_path_witness:
  "fst (createMovie ex_params ex_world) = Some (Inr (PPath ''42_2024-01-01_2024-01-02.mp4''))
   \<and> fst (createMovie (ex_params\<lparr>format := ''webm'', filename := Some (AsStr ''movie'')\<rparr>) ex_world)
       = Some (Inr (PPath ''movie.webm''))
   \<and> snd (queue_reply ex_world) = Inr [(''id'', PStr ''42''), (''token'', PStr ''tk'')]
   \<and> PPath ''42_2024-01-01_2024-01-02.mp4'' =
       PPath (py_str ex_str (PStr ''42'') @ ''_'' @ date_str ex_start @ ''_'' @ date_str ex_end @ ''.'' @ ''mp4'')
   \<and> PPath ''movie.webm'' = PPath (''movie'' @ ''.'' @ ''webm'')"
proof -
  have h: "fst (createMovie ex_params ex_world) = Some (Inr (PPath ''42_2024-01-01_2024-01-02.mp4''))"
    by (simp add: run_defs ex_defs)
  have h': "fst (createMovie (ex_params\<lparr>format := ''webm'', filename := Some (AsStr ''movie'')\<rparr>) ex_world)
       = Some (Inr (PPath ''movie.webm''))"
    by (simp add: run_defs ex_defs)
  have q: "snd (queue_reply ex_world) = Inr [(''id'', PStr ''42''), (''token'', PStr ''tk'')]"
    by (simp add: ex_defs)
  from output_path [OF h q] output_path [OF h' q] h h' q show ?thesis
    by (simp add: ex_defs dict_get_def)
qed

text \<open>
  C6 (as amended): every call of \<^verbatim>\<open>downloadMovie\<close> that createMovie makes has
  exactly the keyword arguments \<^verbatim>\<open>id\<close> (the id of the response of
  \<^verbatim>\<open>queueMovie\<close>), \<^verbatim>\<open>format\<close> and \<^verbatim>\<open>hq\<close>; the token is not among
  them.
\<close>

theorem download_kwargs:
  assumes "kw \<in> set (calls ''downloadMovie'' (trace (snd (createMovie p w))))"
    and "snd (queue_reply w) = Inr r"
  shows "kw = [(''id'', dict_get r ''id''), (''format'', PStr (format p)), (''hq'', PBool (hq p))]"
proof -
  obtain x s where sub: "submit p w = (x, s)" by (cases "submit p w")
  from assms(1) sub obtain f where f: "x = Inr f"
    by (cases x) (auto simp: createMovie_calls)
  have r: "res f = r" using submit_Inr(1) [of p w f s] sub f assms(2) by simp
  have h: "hq' f = PBool (hq p)" using submit_Inr(5) [of p w f s] sub f by simp
  from assms(1) sub f r h show ?thesis
    by (auto simp: createMovie_calls dict_get_def split: option.splits sum.splits)
qed

theorem download_kwargs_witness:
  "[(''id'', PStr ''42''), (''format'', PStr ''mp4''), (''hq'', PBool False)]
     \<in> set (calls ''downloadMovie'' (trace (snd (createMovie ex_params ex_world))))
   \<and> snd (queue_reply ex_world) = Inr [(''id'', PStr ''42''), (''token'', PStr ''tk'')]
   \<and> [(''id'', PStr ''42''), (''format'', PStr ''mp4''), (''hq'', PBool False)]
     = [(''id'', dict_get [(''id'', PStr ''42''), (''token'', PStr ''tk'')] ''id''),
        (''format'', PStr (format ex_params)), (''hq'', PBool (hq ex_params))]"
proof -
  have h: "[(''id'', PStr ''42''), (''format'', PStr ''mp4''), (''hq'', PBool False)]
     \<in> set (calls ''downloadMovie'' (trace (snd (createMovie ex_params ex_world))))"
    by (simp add: run_defs ex_defs)
  have q: "snd (queue_reply ex_world) = Inr [(''id'', PStr ''42''), (''token'', PStr ''tk'')]"
    by (simp add: ex_defs)
  from download_kwargs [OF h q] h q show ?thesis by simp
qed

text \<open>
  The claim as first stated fails: the service returns the token \<^verbatim>\<open>tk\<close> with the
  job, and the one call of \<^verbatim>\<open>downloadMovie\<close> of the run has no
  \<^verbatim>\<open>token\<close> argument.
\<close>

theorem download_without_token_counterexample:
  "snd (queue_reply ex_world) = Inr [(''id'', PStr ''42''), (''token'', PStr ''tk'')]
   \<and> calls ''downloadMovie'' (trace (snd (createMovie ex_params ex_world)))
     = [[(''id'', PStr ''42''), (''format'', PStr ''mp4''), (''hq'', PBool False)]]
   \<and> map_of [(''id'', PStr ''42''), (''format'', PStr ''mp4''), (''hq'', PBool False)] ''token'' = None"
  by (simp add: run_defs ex_defs)

text \<open>
  C8: \<^verbatim>\<open>overwrite\<close>, \<^verbatim>\<open>filename\<close>, \<^verbatim>\<open>hq\<close> and
  \<^verbatim>\<open>timeout\<close> are not sent at submission: two runs whose arguments differ only in
  these four call \<^verbatim>\<open>queueMovie\<close> with the same keyword arguments. A run calls
  \<^verbatim>\<open>queueMovie\<close> once, with the other 27 arguments, and none of the four names is a
  key of that call.
\<close>

theorem queue_kwargs_independent:
  "calls ''queueMovie''
     (trace (snd (createMovie (p\<lparr>overwrite := a, filename := b, hq := c, timeout := d\<rparr>) w)))
     = calls ''queueMovie'' (trace (snd (createMovie p w)))
   \<and> calls ''queueMovie'' (trace (snd (createMovie p w))) = [queue_kwargs p]
   \<and> map_of (queue_kwargs p) ''overwrite'' = None
   \<and> map_of (queue_kwargs p) ''filename'' = None
   \<and> map_of (queue_kwargs p) ''hq'' = None
   \<and> map_of (queue_kwargs p) ''timeout'' = None"
proof -
  have "queue_kwargs (p\<lparr>overwrite := a, filename := b, hq := c, timeout := d\<rparr>) = queue_kwargs p"
    by (simp add: queue_kwargs_def locals_def)
  moreover have "map_of (queue_kwargs p) ''overwrite'' = None"
    "map_of (queue_kwargs p) ''filename'' = None"
    "map_of (queue_kwargs p) ''hq'' = None"
    "map_of (queue_kwargs p) ''timeout'' = None"
    by (simp_all add: queue_kwargs_def locals_def)
  ultimately show ?thesis by (simp add: createMovie_calls)
qed

theorem queue_kwargs_independent_witness:
  "calls ''queueMovie'' (trace (snd (createMovie
      (ex_params\<lparr>overwrite := True, filename := Some (AsStr ''movie''), hq := True, timeout := 1\<rparr>) ex_world)))
     = calls ''queueMovie'' (trace (snd (createMovie ex_params ex_world)))"
  using queue_kwargs_independent [where p = ex_params and a = True
      and b = "Some (AsStr ''movie'')" and c = True and d = 1 and w = ex_world]
  by simp

end
